theory Spec2Isabelle
  imports Main "HOL-Library.Word"
begin

section \<open>JavaScript strings\<close>

text \<open>
  A JavaScript string is a sequence of UTF-16 code units, and \<open>length\<close> counts code
  units. The helper \<open>js\<close> writes an ASCII literal as such a sequence; code units beyond
  ASCII are written by number.
\<close>

type_synonym code_unit = "16 word"
type_synonym js_string = "code_unit list"

definition js :: "string \<Rightarrow> js_string" where
  "js s = map of_char s"

text \<open>
  The character class of the regular expression in \<open>value.replace(/\<dots>/g, "")\<close>
  (part_002, lines 25, 32, 56, 57): every code unit that is not one of \<open>0\<close> to \<open>9\<close>.
  The global replacement by the empty string deletes each of them.
\<close>

definition non_digit :: "code_unit \<Rightarrow> bool" where
  "non_digit c = (\<not> (0x30 \<le> c \<and> c \<le> 0x39))"

definition replace_non_digits :: "js_string \<Rightarrow> js_string" where
  "replace_non_digits v = filter (\<lambda>c. \<not> non_digit c) v"

section \<open>The validation schema (part_002, lines 17 to 39)\<close>

record ShelterSchema =
  name :: js_string
  email :: js_string
  phone :: js_string
  whatsApp :: js_string

text \<open>
  The request type of the update operation is declared outside the sources; the object
  that \<open>submit\<close> passes has the four fields of the schema.
\<close>

type_synonym IUpdateShelterRequest = ShelterSchema

datatype field = Name | Email | Phone | WhatsApp

type_synonym issue = "field \<times> js_string"

definition msg_name_min :: js_string where
  "msg_name_min = js ''Nome deve ter no min'' @ [0xED] @ js ''nimo 2 caracteres''"

definition msg_name_max :: js_string where
  "msg_name_max = js ''Nome deve ter no m'' @ [0xE1] @ js ''ximo 30 caracteres''"

definition msg_email :: js_string where
  "msg_email = js ''Campo deve ser um email''"

definition msg_number :: js_string where
  "msg_number = js ''N'' @ [0xFA] @ js ''mero deve ter entre 10 e 11 caracteres''"

text \<open>
  \<open>z.string().min(2, \<dots>).max(30, \<dots>)\<close>: the checks run in the order written and each
  failing check adds an issue for the field.
\<close>

definition name_issues :: "js_string \<Rightarrow> issue list" where
  "name_issues v =
     (if length v < 2 then [(Name, msg_name_min)] else []) @
     (if length v > 30 then [(Name, msg_name_max)] else [])"

text \<open>The refinement of \<open>phone\<close> and of \<open>whatsApp\<close> (lines 24 to 27 and 31 to 34).\<close>

definition digits_refine :: "js_string \<Rightarrow> bool" where
  "digits_refine v =
     (let digits = length (replace_non_digits v) in digits \<ge> 10 \<and> digits \<le> 11)"

text \<open>
  The schema object. The email check belongs to the validation library, so the
  predicate it computes is the parameter \<open>is_email\<close>. Parsing an object collects the
  issues of all fields, in the order of the fields.
\<close>

definition shelterSchema :: "(js_string \<Rightarrow> bool) \<Rightarrow> ShelterSchema \<Rightarrow> issue list" where
  "shelterSchema is_email v =
     name_issues (name v) @
     (if is_email (email v) then [] else [(Email, msg_email)]) @
     (if digits_refine (phone v) then [] else [(Phone, msg_number)]) @
     (if digits_refine (whatsApp v) then [] else [(WhatsApp, msg_number)])"

section \<open>Effects\<close>

text \<open>
  What the code does to the outside is recorded as a list of events, in the order of
  the calls: the notifications, the request handed to the HTTP client, the console and
  the query cache.
\<close>

datatype 'e event =
    ToastLoading js_string
  | HttpPut js_string IUpdateShelterRequest
  | ConsoleError js_string 'e
  | InvalidateQueries "js_string list"
  | ToastSuccess js_string nat bool
  | ToastError js_string nat bool

record 'r response =
  data :: 'r

text \<open>
  The HTTP client is outside the sources: what \<open>put\<close> answers for a path and a body is
  a parameter, \<open>Inl\<close> a thrown error and \<open>Inr\<close> the response.
\<close>

type_synonym ('e, 'r) httpClient = "js_string \<Rightarrow> IUpdateShelterRequest \<Rightarrow> 'e + 'r response"

definition httpClient_put ::
  "('e, 'r) httpClient \<Rightarrow> js_string \<Rightarrow> IUpdateShelterRequest \<Rightarrow> ('e + 'r response) \<times> 'e event list" where
  "httpClient_put httpClient path body = (httpClient path body, [HttpPut path body])"

section \<open>The update operation (part_000, lines 24 to 37)\<close>

definition updateShelter ::
  "('e, 'r) httpClient \<Rightarrow> IUpdateShelterRequest \<Rightarrow> ('e + 'r) \<times> 'e event list" where
  "updateShelter httpClient params =
     (case httpClient_put httpClient (js ''/shelter'') params of
        (Inr response, evs) \<Rightarrow> (Inr (data response), evs)
      | (Inl error, evs) \<Rightarrow>
          (Inl error, evs @ [ConsoleError (js ''Erro ao atualizar abrigo:'') error]))"

section \<open>The form (part_002, lines 41 to 147)\<close>

definition msg_saving :: js_string where
  "msg_saving = js ''Salvando dados''"

definition msg_saved :: js_string where
  "msg_saved = js ''Dados salvos com sucesso''"

definition msg_not_saved :: js_string where
  "msg_not_saved = js ''N'' @ [0xE3] @ js ''o foi poss'' @ [0xED] @ js ''vel salvar os dados''"

text \<open>
  \<open>submit\<close> (lines 49 to 70). \<open>toastId\<close> is what \<open>toast.loading\<close> returned; the two later
  notifications carry it and \<open>closeButton: true\<close>. The notification and cache calls
  are taken not to throw.
\<close>

definition submit :: "('e, 'r) httpClient \<Rightarrow> nat \<Rightarrow> ShelterSchema \<Rightarrow> 'e event list" where
  "submit httpClient toastId v =
     ToastLoading msg_saving #
     (case updateShelter httpClient
             \<lparr>name = name v, email = email v,
              phone = replace_non_digits (phone v),
              whatsApp = replace_non_digits (whatsApp v)\<rparr> of
        (Inr _, evs) \<Rightarrow>
          evs @ [InvalidateQueries [js ''get-shelter''], ToastSuccess msg_saved toastId True]
      | (Inl error, evs) \<Rightarrow>
          evs @ [ToastError msg_not_saved toastId True])"

text \<open>
  The state that \<open>useForm\<close> keeps: the values of the fields, the default values they
  are compared with, and the part of \<open>formState\<close> that the component reads.
\<close>

record Form =
  fieldValues :: ShelterSchema
  defaultValues :: ShelterSchema
  errors :: "field \<rightharpoonup> js_string"
  isSubmitting :: bool

text \<open>
  The form library's \<open>formState.isDirty\<close>: the form is dirty when the values of its
  fields differ from its default values.
\<close>

definition isDirty :: "Form \<Rightarrow> bool" where
  "isDirty fs = (fieldValues fs \<noteq> defaultValues fs)"

text \<open>
  The form library's \<open>reset\<close>: the given values become the values and the defaults of
  the form, and the form state starts afresh.
\<close>

definition reset :: "ShelterSchema \<Rightarrow> Form \<Rightarrow> Form" where
  "reset v fs =
     fs\<lparr>fieldValues := v, defaultValues := v, errors := Map.empty, isSubmitting := False\<rparr>"

text \<open>
  The resolver built from the schema, and the form library's \<open>handleSubmit\<close>: the values
  are validated; with no issue the callback runs on them, otherwise each field gets
  the message of its first issue and the callback does not run.
\<close>

definition zodResolver :: "(ShelterSchema \<Rightarrow> issue list) \<Rightarrow> ShelterSchema \<Rightarrow> (field \<rightharpoonup> js_string) + ShelterSchema" where
  "zodResolver schema v = (case schema v of [] \<Rightarrow> Inr v | i # is \<Rightarrow> Inl (map_of (i # is)))"

definition handleSubmit ::
  "(ShelterSchema \<Rightarrow> (field \<rightharpoonup> js_string) + ShelterSchema) \<Rightarrow> (ShelterSchema \<Rightarrow> 'e event list) \<Rightarrow>
   Form \<Rightarrow> Form \<times> 'e event list" where
  "handleSubmit resolver onValid fs =
     (case resolver (fieldValues fs) of
        Inr v \<Rightarrow> (fs\<lparr>errors := Map.empty, isSubmitting := False\<rparr>, onValid v)
      | Inl errs \<Rightarrow> (fs\<lparr>errors := errs, isSubmitting := False\<rparr>, []))"

text \<open>The record that \<open>useShelter\<close> fetches, with the fields the component reads.\<close>

record ShelterData =
  shelterName :: js_string
  shelterEmail :: js_string
  shelterPhone :: js_string
  shelterWhatsApp :: js_string

text \<open>The effect of lines 74 to 83; \<open>None\<close> is the absent record.\<close>

definition useEffect_reset :: "bool \<Rightarrow> ShelterData option \<Rightarrow> Form \<Rightarrow> Form" where
  "useEffect_reset isLoading d fs =
     (if \<not> isLoading
      then (case d of
              Some r \<Rightarrow>
                reset \<lparr>name = shelterName r, email = shelterEmail r,
                       phone = shelterPhone r, whatsApp = shelterWhatsApp r\<rparr> fs
            | None \<Rightarrow> fs)
      else fs)"

section \<open>Rendering\<close>

text \<open>
  A rendered tree: text, or an element with a tag (or component name), its props and
  its children. The enumeration of button variants is declared outside the sources;
  the form uses the two members below. \<open>Register\<close> and \<open>RegisterWithMask\<close> stand for
  the props that the form library's \<open>register\<close> spreads into an input, \<open>Handler\<close>
  for an event handler, \<open>Other\<close> for any other value (a ref, a caller's attribute).
\<close>

datatype ButtonVariant = Default | Disabled

datatype 'a prop_value =
    Str js_string
  | Num nat
  | Variant ButtonVariant
  | Register field
  | RegisterWithMask field "js_string list"
  | Handler
  | Other 'a

datatype 'a element =
    Text js_string
  | Element string "string \<rightharpoonup> 'a prop_value" "'a element list"

primrec descendants :: "'a element \<Rightarrow> 'a element list" where
  "descendants (Text s) = [Text s]"
| "descendants (Element t ps cs) = Element t ps cs # concat (map descendants cs)"

fun has_tag :: "string \<Rightarrow> 'a element \<Rightarrow> bool" where
  "has_tag t (Text s) = False"
| "has_tag t (Element t' ps cs) = (t' = t)"

fun prop_of :: "string \<Rightarrow> 'a element \<Rightarrow> 'a prop_value option" where
  "prop_of k (Text s) = None"
| "prop_of k (Element t ps cs) = ps k"

fun children_of :: "'a element \<Rightarrow> 'a element list" where
  "children_of (Text s) = []"
| "children_of (Element t ps cs) = cs"

definition by_tag :: "string \<Rightarrow> 'a element \<Rightarrow> 'a element list" where
  "by_tag t e = filter (has_tag t) (descendants e)"

subsection \<open>The select primitive (Select.tsx, lines 13 to 29)\<close>

record select_option =
  option_value :: js_string
  option_text :: js_string

text \<open>
  \<open>styles\<close> is the imported style sheet, from class name to generated class. The
  caller's remaining attributes are spread first, so \<open>className\<close> and \<open>ref\<close> replace
  what they hold under these names. The options written between the tags are the
  children of the select element and replace what the caller's attributes hold under
  \<open>children\<close>: the child list of an element stands for its \<open>children\<close> prop, and
  the prop map holds no entry of that name.
\<close>

definition FowardedSelect ::
  "(string \<Rightarrow> js_string) \<Rightarrow> js_string \<Rightarrow> select_option list \<Rightarrow> (string \<rightharpoonup> 'a prop_value) \<Rightarrow> 'a \<Rightarrow>
   'a element" where
  "FowardedSelect styles label options rest ref =
     Element ''div'' [''className'' \<mapsto> Str (styles ''selectGroup'')]
       [Element ''label'' Map.empty [Text label],
        Element ''select''
          ((rest(''children'' := None))
             (''className'' \<mapsto> Str (styles ''selectBase''), ''ref'' \<mapsto> Other ref))
          (map (\<lambda>option.
                  Element ''option''
                    [''key'' \<mapsto> Str (option_value option),
                     ''value'' \<mapsto> Str (option_value option)]
                    [Text (option_text option)])
               options)]"

subsection \<open>The form's tree (part_002, lines 85 to 146)\<close>

definition masks :: "js_string list" where
  "masks = [js ''99 9999-9999'', js ''99 99999-9999'']"

text \<open>
  One of the four blocks of lines 90 to 130: the input, and under it the paragraph
  with the field's message when the form state holds an error for the field.
\<close>

definition field_block ::
  "(string \<Rightarrow> js_string) \<Rightarrow> js_string \<Rightarrow> 'a prop_value \<Rightarrow> js_string option \<Rightarrow> 'a element" where
  "field_block styles label registered err =
     Element ''div'' Map.empty
       (Element ''Input'' [''label'' \<mapsto> Str label, ''register'' \<mapsto> registered] [] #
        (case err of
           Some message \<Rightarrow>
             [Element ''p'' [''className'' \<mapsto> Str (styles ''formError'')] [Text message]]
         | None \<Rightarrow> []))"

definition Shelter :: "(string \<Rightarrow> js_string) \<Rightarrow> bool \<Rightarrow> Form \<Rightarrow> 'a element" where
  "Shelter styles isLoading fs =
     Element ''Panel'' Map.empty
       ((if isLoading
         then [Element ''Skeleton''
                 [''count'' \<mapsto> Num 4, ''width'' \<mapsto> Num 320, ''height'' \<mapsto> Num 32] []]
         else []) @
        (if \<not> isLoading
         then [Element ''form''
                 [''className'' \<mapsto> Str (styles ''container''), ''onSubmit'' \<mapsto> Handler]
                 [field_block styles (js ''Nome'') (Register Name) (errors fs Name),
                  field_block styles (js ''Email'') (Register Email) (errors fs Email),
                  field_block styles (js ''Telefone'') (RegisterWithMask Phone masks)
                    (errors fs Phone),
                  field_block styles (js ''Whatsapp'') (RegisterWithMask WhatsApp masks)
                    (errors fs WhatsApp),
                  Element ''Button''
                    [''type'' \<mapsto> Str (js ''submit''),
                     ''variant'' \<mapsto>
                       Variant (if \<not> isDirty fs \<or> isSubmitting fs then Disabled else Default)]
                    [Text (js '' ''), Text (js ''Salvar dados'')]]]
         else []))"

text \<open>
  Modelled from the spec: the button primitive (components/common/Button) is not among
  the sources. The spec calls a button of the disabled variant a disabled submit
  control, one that prevents submissions: pressing it does nothing, and pressing a
  button of any other variant submits the form it stands in.
\<close>

definition Button_press :: "ButtonVariant \<Rightarrow> ('s \<Rightarrow> 's \<times> 'b list) \<Rightarrow> 's \<Rightarrow> 's \<times> 'b list" where
  "Button_press variant onSubmit s = (if variant = Disabled then (s, []) else onSubmit s)"

text \<open>
  The user presses the submit button of the rendered form: the button found in the
  tree, with the variant it was rendered with, in front of the form's \<open>onSubmit\<close>
  handler of line 89. Without a button in the tree there is nothing to press.
\<close>

definition press_save ::
  "(js_string \<Rightarrow> bool) \<Rightarrow> ('e, 'r) httpClient \<Rightarrow> nat \<Rightarrow> (string \<Rightarrow> js_string) \<Rightarrow> bool \<Rightarrow> Form \<Rightarrow>
   Form \<times> 'e event list" where
  "press_save is_email httpClient toastId styles isLoading fs =
     (case map (prop_of ''variant'') (by_tag ''Button'' (Shelter styles isLoading fs :: unit element)) of
        [Some (Variant variant)] \<Rightarrow>
          Button_press variant
            (handleSubmit (zodResolver (shelterSchema is_email)) (submit httpClient toastId)) fs
      | _ \<Rightarrow> (fs, []))"

section \<open>Observations on traces\<close>

fun is_request :: "'e event \<Rightarrow> bool" where
  "is_request (HttpPut path body) = True"
| "is_request _ = False"

fun is_success :: "'e event \<Rightarrow> bool" where
  "is_success (ToastSuccess m i c) = True"
| "is_success _ = False"

fun is_failure :: "'e event \<Rightarrow> bool" where
  "is_failure (ToastError m i c) = True"
| "is_failure _ = False"

fun is_invalidation :: "'e event \<Rightarrow> bool" where
  "is_invalidation (InvalidateQueries k) = True"
| "is_invalidation _ = False"

text \<open>
  The paragraph of lines 93 to 95 (and its three copies), as it stands in the tree when
  a field has the message \<open>message\<close>.
\<close>

definition formError :: "(string \<Rightarrow> js_string) \<Rightarrow> js_string \<Rightarrow> 'a element" where
  "formError styles message =
     Element ''p'' [''className'' \<mapsto> Str (styles ''formError'')] [Text message]"

text \<open>The user presses the submit button \<open>n\<close> times in a row, editing nothing.\<close>

primrec press_save_times ::
  "nat \<Rightarrow> (js_string \<Rightarrow> bool) \<Rightarrow> ('e, 'r) httpClient \<Rightarrow> nat \<Rightarrow> (string \<Rightarrow> js_string) \<Rightarrow> Form \<Rightarrow>
   Form \<times> 'e event list" where
  "press_save_times 0 is_email httpClient toastId styles fs = (fs, [])"
| "press_save_times (Suc n) is_email httpClient toastId styles fs =
     (case press_save is_email httpClient toastId styles False fs of
        (fs', evs) \<Rightarrow>
          (case press_save_times n is_email httpClient toastId styles fs' of
             (fs'', evs') \<Rightarrow> (fs'', evs @ evs')))"

section \<open>The validation rules as the specification words them\<close>

text \<open>
  The digits of a string, left in their order, and how many there are; a digit is one
  of the ten characters \<open>0\<close> to \<open>9\<close>.
\<close>

definition digits_only :: "js_string \<Rightarrow> js_string" where
  "digits_only v = filter (\<lambda>c. c \<in> set (js ''0123456789'')) v"

definition digit_count :: "js_string \<Rightarrow> nat" where
  "digit_count v = length (digits_only v)"

text \<open>The rule of each field in the table of validation rules, negated.\<close>

fun violates :: "(js_string \<Rightarrow> bool) \<Rightarrow> ShelterSchema \<Rightarrow> field \<Rightarrow> bool" where
  "violates is_email v Name = (length (name v) < 2 \<or> 30 < length (name v))"
| "violates is_email v Email = (\<not> is_email (email v))"
| "violates is_email v Phone = (\<not> (10 \<le> digit_count (phone v) \<and> digit_count (phone v) \<le> 11))"
| "violates is_email v WhatsApp =
     (\<not> (10 \<le> digit_count (whatsApp v) \<and> digit_count (whatsApp v) \<le> 11))"

section \<open>Sample inputs\<close>

definition record_1 :: ShelterData where
  "record_1 = \<lparr>shelterName = js ''Lar'', shelterEmail = js ''a@b.co'',
     shelterPhone = js ''11 9999-9999'', shelterWhatsApp = js ''11 99999-9999''\<rparr>"

definition form_0 :: Form where
  "form_0 = \<lparr>fieldValues = \<lparr>name = [], email = [], phone = [], whatsApp = []\<rparr>,
     defaultValues = \<lparr>name = [], email = [], phone = [], whatsApp = []\<rparr>,
     errors = Map.empty, isSubmitting = False\<rparr>"

text \<open>
  A form the user has edited: the record \<open>record_1\<close> was loaded, and the name has been
  cut down to one character.
\<close>

definition form_short_name :: Form where
  "form_short_name =
     \<lparr>fieldValues = \<lparr>name = js ''L'', email = js ''a@b.co'', phone = js ''11 9999-9999'',
        whatsApp = js ''11 99999-9999''\<rparr>,
      defaultValues = \<lparr>name = js ''Lar'', email = js ''a@b.co'',
        phone = js ''11 9999-9999'', whatsApp = js ''11 99999-9999''\<rparr>,
      errors = Map.empty, isSubmitting = False\<rparr>"

text \<open>
  A form the user has edited, with values that pass every rule: a record of name
  \<open>La\<close> was loaded, and the user has typed one more letter.
\<close>

definition form_edited :: Form where
  "form_edited =
     \<lparr>fieldValues = \<lparr>name = js ''Lar'', email = js ''a@b.co'', phone = js ''11 9999-9999'',
        whatsApp = js ''11 99999-9999''\<rparr>,
      defaultValues = \<lparr>name = js ''La'', email = js ''a@b.co'',
        phone = js ''11 9999-9999'', whatsApp = js ''11 99999-9999''\<rparr>,
      errors = Map.empty, isSubmitting = False\<rparr>"

text \<open>Two clients: one that answers every request with its body, one that fails.\<close>

definition client_ok :: "(nat, ShelterSchema) httpClient" where
  "client_ok = (\<lambda>path body. Inr \<lparr>data = body\<rparr>)"

definition client_down :: "(nat, ShelterSchema) httpClient" where
  "client_down = (\<lambda>path body. Inl 503)"

text \<open>Two options of a select, and a style sheet that names each class after itself.\<close>

definition options_2 :: "select_option list" where
  "options_2 =
     [\<lparr>option_value = js ''dog'', option_text = js ''Cachorro''\<rparr>,
      \<lparr>option_value = js ''cat'', option_text = js ''Gato''\<rparr>]"

definition styles_id :: "string \<Rightarrow> js_string" where
  "styles_id c = js c"

section \<open>Auxiliary facts\<close>

lemma digit_code_unit: "(\<not> non_digit c) = (c \<in> set (js ''0123456789''))"
proof -
  have "(0x30 \<le> c \<and> c \<le> 0x39) = (unat c \<in> {48..57})"
    by (simp add: word_le_nat_alt)
  also have "\<dots> = (unat c \<in> {48, 49, 50, 51, 52, 53, 54, 55, 56, 57})"
    by simp arith
  also have "\<dots> = (c \<in> {48, 49, 50, 51, 52, 53, 54, 55, 56, 57})"
    by (simp add: word_unat_eq_iff)
  finally show ?thesis
    by (simp add: non_digit_def js_def insert_commute)
qed

lemma replace_non_digits_digits_only: "replace_non_digits v = digits_only v"
  by (simp add: replace_non_digits_def digits_only_def digit_code_unit)

lemma digits_refine_digit_count:
  "digits_refine v = (10 \<le> digit_count v \<and> digit_count v \<le> 11)"
  by (simp add: digits_refine_def Let_def digit_count_def replace_non_digits_digits_only)

lemma map_of_shelterSchema:
  "map_of (shelterSchema is_email v) f =
     (case f of
        Name \<Rightarrow> if length (name v) < 2 then Some msg_name_min
                else if 30 < length (name v) then Some msg_name_max else None
      | Email \<Rightarrow> if is_email (email v) then None else Some msg_email
      | Phone \<Rightarrow> if digits_refine (phone v) then None else Some msg_number
      | WhatsApp \<Rightarrow> if digits_refine (whatsApp v) then None else Some msg_number)"
  by (cases f) (simp_all add: shelterSchema_def name_issues_def)

lemma shelterSchema_Nil:
  "(shelterSchema is_email v = []) = (\<forall>f. \<not> violates is_email v f)"
proof -
  have "(\<forall>f. \<not> violates is_email v f) =
        (\<not> violates is_email v Name \<and> \<not> violates is_email v Email \<and>
         \<not> violates is_email v Phone \<and> \<not> violates is_email v WhatsApp)"
    by (metis field.exhaust)
  then show ?thesis
    by (auto simp: shelterSchema_def name_issues_def digits_refine_digit_count)
qed

lemma handleSubmit_valid:
  "shelterSchema is_email (fieldValues fs) = [] \<Longrightarrow>
   handleSubmit (zodResolver (shelterSchema is_email)) onValid fs =
     (fs\<lparr>errors := Map.empty, isSubmitting := False\<rparr>, onValid (fieldValues fs))"
  by (simp add: handleSubmit_def zodResolver_def)

lemma handleSubmit_invalid:
  "shelterSchema is_email (fieldValues fs) \<noteq> [] \<Longrightarrow>
   handleSubmit (zodResolver (shelterSchema is_email)) onValid fs =
     (fs\<lparr>errors := map_of (shelterSchema is_email (fieldValues fs)), isSubmitting := False\<rparr>, [])"
  by (simp add: handleSubmit_def zodResolver_def split: list.splits)

lemma submit_Inr:
  "httpClient (js ''/shelter'')
     \<lparr>name = name v, email = email v, phone = replace_non_digits (phone v),
      whatsApp = replace_non_digits (whatsApp v)\<rparr> = Inr response \<Longrightarrow>
   submit httpClient toastId v =
     [ToastLoading msg_saving,
      HttpPut (js ''/shelter'')
        \<lparr>name = name v, email = email v, phone = replace_non_digits (phone v),
         whatsApp = replace_non_digits (whatsApp v)\<rparr>,
      InvalidateQueries [js ''get-shelter''],
      ToastSuccess msg_saved toastId True]"
  by (simp add: submit_def updateShelter_def httpClient_put_def)

lemma submit_Inl:
  "httpClient (js ''/shelter'')
     \<lparr>name = name v, email = email v, phone = replace_non_digits (phone v),
      whatsApp = replace_non_digits (whatsApp v)\<rparr> = Inl error \<Longrightarrow>
   submit httpClient toastId v =
     [ToastLoading msg_saving,
      HttpPut (js ''/shelter'')
        \<lparr>name = name v, email = email v, phone = replace_non_digits (phone v),
         whatsApp = replace_non_digits (whatsApp v)\<rparr>,
      ConsoleError (js ''Erro ao atualizar abrigo:'') error,
      ToastError msg_not_saved toastId True]"
  by (simp add: submit_def updateShelter_def httpClient_put_def)

lemma submit_requests:
  "filter is_request (submit httpClient toastId v) =
     [HttpPut (js ''/shelter'')
        \<lparr>name = name v, email = email v, phone = replace_non_digits (phone v),
         whatsApp = replace_non_digits (whatsApp v)\<rparr>]"
  by (cases "httpClient (js ''/shelter'')
     \<lparr>name = name v, email = email v, phone = replace_non_digits (phone v),
      whatsApp = replace_non_digits (whatsApp v)\<rparr>") (simp_all add: submit_Inl submit_Inr)

lemma by_tag_Button:
  "\<not> isLoading \<Longrightarrow>
   map (prop_of ''variant'') (by_tag ''Button'' (Shelter styles isLoading fs)) =
     [Some (Variant (if \<not> isDirty fs \<or> isSubmitting fs then Disabled else Default))]"
  by (simp add: by_tag_def Shelter_def field_block_def split: option.splits)

lemma digits_only_examples:
  "digits_only (js ''11 9999-9999'') = js ''1199999999''"
  "digits_only (js ''11 99999-9999'') = js ''11999999999''"
  by (simp_all add: digits_only_def js_def)

lemma digit_count_examples:
  "digit_count (js ''99 9999-9999'') = 10"
  "digit_count (js ''1234567890'') = 10"
  "digit_count (js ''99 999-999'') = 8"
  by (simp_all add: digit_count_def digits_only_def js_def)

lemma form_edited_valid: "shelterSchema (\<lambda>e. True) (fieldValues form_edited) = []"
  by (simp add: shelterSchema_def name_issues_def digits_refine_def replace_non_digits_def
      non_digit_def form_edited_def js_def)

lemma press_save_Disabled:
  "\<not> isLoading \<Longrightarrow> \<not> isDirty fs \<or> isSubmitting fs \<Longrightarrow>
   press_save is_email httpClient toastId styles isLoading fs = (fs, [])"
  by (simp add: press_save_def by_tag_Button Button_press_def)

lemma press_save_Default:
  "\<not> isLoading \<Longrightarrow> isDirty fs \<Longrightarrow> \<not> isSubmitting fs \<Longrightarrow>
   press_save is_email httpClient toastId styles isLoading fs =
     handleSubmit (zodResolver (shelterSchema is_email)) (submit httpClient toastId) fs"
  by (simp add: press_save_def by_tag_Button Button_press_def)

lemma formError_shown:
  "errors fs f = Some m \<Longrightarrow> formError styles m \<in> set (descendants (Shelter styles False fs))"
  by (cases f) (simp_all add: Shelter_def field_block_def formError_def)

lemma violates_issue:
  "violates is_email v f = (map_of (shelterSchema is_email v) f \<noteq> None)"
  by (cases f) (auto simp: map_of_shelterSchema digits_refine_digit_count)

lemma violates_not_Nil:
  "violates is_email v f \<Longrightarrow> shelterSchema is_email v \<noteq> []"
  by (auto simp: shelterSchema_Nil)

lemma press_save_invalid:
  assumes "violates is_email (fieldValues fs) f"
  shows "snd (press_save is_email httpClient toastId styles False fs) = []"
    and "fieldValues (fst (press_save is_email httpClient toastId styles False fs)) = fieldValues fs"
proof -
  have inv: "shelterSchema is_email (fieldValues fs) \<noteq> []"
    using assms by (rule violates_not_Nil)
  show "snd (press_save is_email httpClient toastId styles False fs) = []"
    by (cases "\<not> isDirty fs \<or> isSubmitting fs")
      (auto simp: press_save_Disabled press_save_Default handleSubmit_invalid [OF inv])
  show "fieldValues (fst (press_save is_email httpClient toastId styles False fs)) = fieldValues fs"
    by (cases "\<not> isDirty fs \<or> isSubmitting fs")
      (auto simp: press_save_Disabled press_save_Default handleSubmit_invalid [OF inv])
qed

lemma press_save_times_invalid:
  "violates is_email (fieldValues fs) f \<Longrightarrow>
   snd (press_save_times n is_email httpClient toastId styles fs) = []"
proof (induction n arbitrary: fs)
  case 0
  then show ?case by simp
next
  case (Suc n)
  obtain fs' evs where p: "press_save is_email httpClient toastId styles False fs = (fs', evs)"
    by (cases "press_save is_email httpClient toastId styles False fs")
  from press_save_invalid [OF Suc.prems, of httpClient toastId styles] p
  have e: "evs = []" and v: "fieldValues fs' = fieldValues fs"
    by simp_all
  from Suc.prems v have "violates is_email (fieldValues fs') f"
    by simp
  then have "snd (press_save_times n is_email httpClient toastId styles fs') = []"
    by (rule Suc.IH)
  with p e show ?case
    by (simp split: prod.splits)
qed

lemma form_short_name_facts:
  "length (name (fieldValues form_short_name)) = 1"
  "isDirty form_short_name" "\<not> isSubmitting form_short_name"
  by (simp_all add: form_short_name_def isDirty_def js_def)

lemma form_edited_facts:
  "length (name (fieldValues form_edited)) = 3"
  "isDirty form_edited" "\<not> isSubmitting form_edited"
  by (simp_all add: form_edited_def isDirty_def js_def)

lemma press_save_form_edited:
  "press_save (\<lambda>e. True) client_ok 7 styles_id False form_edited =
     (form_edited,
      [ToastLoading msg_saving,
       HttpPut (js ''/shelter'')
         \<lparr>name = js ''Lar'', email = js ''a@b.co'', phone = js ''1199999999'',
          whatsApp = js ''11999999999''\<rparr>,
       InvalidateQueries [js ''get-shelter''],
       ToastSuccess msg_saved 7 True])"
proof -
  have ok: "client_ok (js ''/shelter'')
     \<lparr>name = name (fieldValues form_edited), email = email (fieldValues form_edited),
      phone = replace_non_digits (phone (fieldValues form_edited)),
      whatsApp = replace_non_digits (whatsApp (fieldValues form_edited))\<rparr> =
     Inr \<lparr>data = \<lparr>name = js ''Lar'', email = js ''a@b.co'', phone = js ''1199999999'',
                   whatsApp = js ''11999999999''\<rparr>\<rparr>"
    by (simp add: client_ok_def form_edited_def replace_non_digits_digits_only
        digits_only_examples)
  have body: "\<lparr>name = name (fieldValues form_edited), email = email (fieldValues form_edited),
      phone = replace_non_digits (phone (fieldValues form_edited)),
      whatsApp = replace_non_digits (whatsApp (fieldValues form_edited))\<rparr> =
      \<lparr>name = js ''Lar'', email = js ''a@b.co'', phone = js ''1199999999'',
       whatsApp = js ''11999999999''\<rparr>"
    by (simp add: form_edited_def replace_non_digits_digits_only digits_only_examples)
  have same: "form_edited\<lparr>errors := Map.empty, isSubmitting := False\<rparr> = form_edited"
    by (simp add: form_edited_def)
  have sent: "submit client_ok 7 (fieldValues form_edited) =
     [ToastLoading msg_saving,
      HttpPut (js ''/shelter'')
        \<lparr>name = js ''Lar'', email = js ''a@b.co'', phone = js ''1199999999'',
         whatsApp = js ''11999999999''\<rparr>,
      InvalidateQueries [js ''get-shelter''],
      ToastSuccess msg_saved 7 True]"
    using ok
      submit_Inr [where httpClient = client_ok and v = "fieldValues form_edited" and toastId = 7]
    by (simp add: body)
  show ?thesis
    by (simp add: press_save_Default form_edited_facts handleSubmit_valid [OF form_edited_valid]
        same sent)
qed

lemma by_tag_option_elements:
  "filter (has_tag t)
     (concat (map (\<lambda>option. descendants (Element ''option'' (ps option) [Text (tx option)])) xs)) =
   (if t = ''option'' then map (\<lambda>option. Element ''option'' (ps option) [Text (tx option)]) xs
    else [])"
  by (induction xs) auto

lemma FowardedSelect_by_tag:
  "by_tag ''option'' (FowardedSelect styles label options rest ref) =
     map (\<lambda>option.
            Element ''option''
              [''key'' \<mapsto> Str (option_value option), ''value'' \<mapsto> Str (option_value option)]
              [Text (option_text option)])
         options"
  "by_tag ''select'' (FowardedSelect styles label options rest ref) =
     [Element ''select''
        ((rest(''children'' := None))
           (''className'' \<mapsto> Str (styles ''selectBase''), ''ref'' \<mapsto> Other ref))
        (by_tag ''option'' (FowardedSelect styles label options rest ref))]"
  "by_tag ''label'' (FowardedSelect styles label options rest ref) =
     [Element ''label'' Map.empty [Text label]]"
  by (simp_all add: by_tag_def FowardedSelect_def map_concat comp_def by_tag_option_elements
      del: descendants.simps(2)
      add: descendants.simps(2) [of "''div''"] descendants.simps(2) [of "''label''"]
        descendants.simps(2) [of "''select''"])

section \<open>The claims\<close>

text \<open>
  Claim C1. A loaded record is put into the form by the effect; submitting the form
  with these values issues one request, a PUT to the shelter path whose body has the
  record's name and email as they are and the record's phone and whatsApp reduced to
  their digits. This is what \<open>submit\<close> sends whatever the record; through
  \<open>handleSubmit\<close> the same request goes out when the record passes the schema.
\<close>

theorem round_trip_request_body:
  "filter is_request
     (submit httpClient toastId (fieldValues (useEffect_reset False (Some r) fs))) =
     [HttpPut (js ''/shelter'')
        \<lparr>name = shelterName r, email = shelterEmail r,
         phone = digits_only (shelterPhone r),
         whatsApp = digits_only (shelterWhatsApp r)\<rparr>]
   \<and> (shelterSchema is_email (fieldValues (useEffect_reset False (Some r) fs)) = [] \<longrightarrow>
        filter is_request
          (snd (handleSubmit (zodResolver (shelterSchema is_email)) (submit httpClient toastId)
                  (useEffect_reset False (Some r) fs))) =
        [HttpPut (js ''/shelter'')
           \<lparr>name = shelterName r, email = shelterEmail r,
            phone = digits_only (shelterPhone r),
            whatsApp = digits_only (shelterWhatsApp r)\<rparr>])"
  by (simp add: handleSubmit_valid submit_requests replace_non_digits_digits_only
      useEffect_reset_def reset_def)

theorem round_trip_request_body_witness:
  "shelterSchema (\<lambda>e. True) (fieldValues (useEffect_reset False (Some record_1) form_0)) = []
   \<and> filter is_request
       (snd (handleSubmit (zodResolver (shelterSchema (\<lambda>e. True))) (submit client_ok 7)
               (useEffect_reset False (Some record_1) form_0))) =
     [HttpPut (js ''/shelter'')
        \<lparr>name = js ''Lar'', email = js ''a@b.co'', phone = js ''1199999999'',
         whatsApp = js ''11999999999''\<rparr>]"
proof -
  have valid:
    "shelterSchema (\<lambda>e. True) (fieldValues (useEffect_reset False (Some record_1) form_0)) = []"
    by (simp add: shelterSchema_def name_issues_def digits_refine_def replace_non_digits_def
        non_digit_def useEffect_reset_def reset_def record_1_def form_0_def js_def)
  have sel: "shelterName record_1 = js ''Lar''" "shelterEmail record_1 = js ''a@b.co''"
    "shelterPhone record_1 = js ''11 9999-9999''"
    "shelterWhatsApp record_1 = js ''11 99999-9999''"
    by (simp_all add: record_1_def)
  from valid round_trip_request_body [of client_ok 7 record_1 form_0 "\<lambda>e. True"]
  show ?thesis
    by (simp add: sel digits_only_examples)
qed

text \<open>
  Claim C2. The refinement of phone and of whatsApp accepts a string exactly when the
  number of its digits is 10 or 11, so two strings with the same number of digits are
  both accepted or both refused; and the schema reports no issue for the phone field,
  or for the whatsApp field, exactly in that case.
\<close>

theorem phone_validity_by_digit_count:
  "digits_refine v = (10 \<le> digit_count v \<and> digit_count v \<le> 11)
   \<and> (digit_count v = digit_count w \<longrightarrow> digits_refine v = digits_refine w)
   \<and> (map_of (shelterSchema is_email r) Phone = None) =
       (10 \<le> digit_count (phone r) \<and> digit_count (phone r) \<le> 11)
   \<and> (map_of (shelterSchema is_email r) WhatsApp = None) =
       (10 \<le> digit_count (whatsApp r) \<and> digit_count (whatsApp r) \<le> 11)"
  by (simp add: digits_refine_digit_count map_of_shelterSchema)

theorem phone_validity_by_digit_count_witness:
  "digit_count (js ''99 9999-9999'') = digit_count (js ''1234567890'')
   \<and> digits_refine (js ''99 9999-9999'') = digits_refine (js ''1234567890'')
   \<and> digits_refine (js ''99 9999-9999'')
   \<and> \<not> digits_refine (js ''99 999-999'')"
proof -
  note t = phone_validity_by_digit_count
             [of "js ''99 9999-9999''" "js ''1234567890''" "\<lambda>e. True" "fieldValues form_edited"]
  have c: "digit_count (js ''99 9999-9999'') = digit_count (js ''1234567890'')"
    by (simp add: digit_count_examples)
  from t c have "digits_refine (js ''99 9999-9999'') = digits_refine (js ''1234567890'')"
    by blast
  moreover from t have "digits_refine (js ''99 9999-9999'')"
    by (simp add: digit_count_examples)
  moreover have "\<not> digits_refine (js ''99 999-999'')"
    using phone_validity_by_digit_count
            [of "js ''99 999-999''" "[]" "\<lambda>e. True" "fieldValues form_edited"]
    by (simp add: digit_count_examples)
  ultimately show ?thesis
    using c by simp
qed

text \<open>
  Claim C3. The update operation hands its argument to the client as the body of one
  PUT to the shelter path. When the client answers, the operation returns the data of
  the response; when the client throws, the operation writes the error to the console
  and throws the same error. In both cases the request is issued once.
\<close>

theorem updateShelter_put_once:
  "(httpClient (js ''/shelter'') params = Inr response \<longrightarrow>
      updateShelter httpClient params =
        (Inr (data response), [HttpPut (js ''/shelter'') params]))
   \<and> (httpClient (js ''/shelter'') params = Inl error \<longrightarrow>
      updateShelter httpClient params =
        (Inl error,
         [HttpPut (js ''/shelter'') params,
          ConsoleError (js ''Erro ao atualizar abrigo:'') error]))
   \<and> filter is_request (snd (updateShelter httpClient params)) =
       [HttpPut (js ''/shelter'') params]"
  by (cases "httpClient (js ''/shelter'') params")
    (simp_all add: updateShelter_def httpClient_put_def)

theorem updateShelter_put_once_witness:
  "client_ok (js ''/shelter'') (fieldValues form_edited) = Inr \<lparr>data = fieldValues form_edited\<rparr>
   \<and> updateShelter client_ok (fieldValues form_edited) =
       (Inr (fieldValues form_edited), [HttpPut (js ''/shelter'') (fieldValues form_edited)])
   \<and> client_down (js ''/shelter'') (fieldValues form_edited) = Inl 503
   \<and> updateShelter client_down (fieldValues form_edited) =
       (Inl 503,
        [HttpPut (js ''/shelter'') (fieldValues form_edited),
         ConsoleError (js ''Erro ao atualizar abrigo:'') 503])"
proof -
  have ok: "client_ok (js ''/shelter'') (fieldValues form_edited) = Inr \<lparr>data = fieldValues form_edited\<rparr>"
    by (simp add: client_ok_def)
  have down: "client_down (js ''/shelter'') (fieldValues form_edited) = Inl 503"
    by (simp add: client_down_def)
  from ok down
    updateShelter_put_once [of client_ok "fieldValues form_edited" "\<lparr>data = fieldValues form_edited\<rparr>"]
    updateShelter_put_once [of client_down "fieldValues form_edited" _ 503]
  show ?thesis by simp
qed

text \<open>
  Claim C4. When the update request of a submission succeeds, the submission
  invalidates the queries of key \<open>get-shelter\<close>, once, shows one success notification
  and shows no error notification.
\<close>

theorem save_success_invalidates_and_notifies_once:
  assumes "httpClient (js ''/shelter'')
             \<lparr>name = name v, email = email v, phone = replace_non_digits (phone v),
              whatsApp = replace_non_digits (whatsApp v)\<rparr> = Inr response"
  shows "filter is_invalidation (submit httpClient toastId v) =
           [InvalidateQueries [js ''get-shelter'']]
       \<and> filter is_success (submit httpClient toastId v) =
           [ToastSuccess msg_saved toastId True]
       \<and> filter is_failure (submit httpClient toastId v) = []"
  using assms by (simp add: submit_Inr)

theorem save_success_invalidates_and_notifies_once_witness:
  "client_ok (js ''/shelter'')
     \<lparr>name = name (fieldValues form_edited), email = email (fieldValues form_edited),
      phone = replace_non_digits (phone (fieldValues form_edited)),
      whatsApp = replace_non_digits (whatsApp (fieldValues form_edited))\<rparr> =
     Inr \<lparr>data = \<lparr>name = js ''Lar'', email = js ''a@b.co'', phone = js ''1199999999'',
                   whatsApp = js ''11999999999''\<rparr>\<rparr>
   \<and> filter is_invalidation (submit client_ok 7 (fieldValues form_edited)) =
       [InvalidateQueries [js ''get-shelter'']]
   \<and> length (filter is_success (submit client_ok 7 (fieldValues form_edited))) = 1"
proof -
  have ok: "client_ok (js ''/shelter'')
     \<lparr>name = name (fieldValues form_edited), email = email (fieldValues form_edited),
      phone = replace_non_digits (phone (fieldValues form_edited)),
      whatsApp = replace_non_digits (whatsApp (fieldValues form_edited))\<rparr> =
     Inr \<lparr>data = \<lparr>name = js ''Lar'', email = js ''a@b.co'', phone = js ''1199999999'',
                   whatsApp = js ''11999999999''\<rparr>\<rparr>"
    by (simp add: client_ok_def form_edited_def replace_non_digits_digits_only
        digits_only_examples)
  from ok save_success_invalidates_and_notifies_once
            [where httpClient = client_ok and v = "fieldValues form_edited" and toastId = 7]
  show ?thesis by simp
qed

text \<open>
  Claim C5. When the update request of a submission fails, the submission shows one
  error notification, shows no success notification and does not invalidate the cached
  query; and after the form library has run the submission, the values of the fields
  and the dirty flag of the form are what they were before.
\<close>

theorem save_failure_keeps_form:
  assumes "httpClient (js ''/shelter'')
             \<lparr>name = name (fieldValues fs), email = email (fieldValues fs),
              phone = replace_non_digits (phone (fieldValues fs)),
              whatsApp = replace_non_digits (whatsApp (fieldValues fs))\<rparr> = Inl error"
  shows "filter is_failure (submit httpClient toastId (fieldValues fs)) =
           [ToastError msg_not_saved toastId True]
       \<and> filter is_invalidation (submit httpClient toastId (fieldValues fs)) = []
       \<and> filter is_success (submit httpClient toastId (fieldValues fs)) = []
       \<and> snd (handleSubmit (zodResolver (shelterSchema is_email)) (submit httpClient toastId) fs)
           \<in> {[], submit httpClient toastId (fieldValues fs)}
       \<and> fieldValues
            (fst (handleSubmit (zodResolver (shelterSchema is_email)) (submit httpClient toastId) fs))
           = fieldValues fs
       \<and> isDirty
            (fst (handleSubmit (zodResolver (shelterSchema is_email)) (submit httpClient toastId) fs))
           = isDirty fs"
proof (cases "shelterSchema is_email (fieldValues fs) = []")
  case True
  then show ?thesis
    using assms by (simp add: handleSubmit_valid submit_Inl isDirty_def)
next
  case False
  then show ?thesis
    using assms by (simp add: handleSubmit_invalid submit_Inl isDirty_def)
qed

theorem save_failure_keeps_form_witness:
  "client_down (js ''/shelter'')
     \<lparr>name = name (fieldValues form_edited), email = email (fieldValues form_edited),
      phone = replace_non_digits (phone (fieldValues form_edited)),
      whatsApp = replace_non_digits (whatsApp (fieldValues form_edited))\<rparr> = Inl 503
   \<and> length (filter is_failure
        (snd (handleSubmit (zodResolver (shelterSchema (\<lambda>e. True))) (submit client_down 7)
                form_edited))) = 1
   \<and> fieldValues
        (fst (handleSubmit (zodResolver (shelterSchema (\<lambda>e. True))) (submit client_down 7)
                form_edited)) = fieldValues form_edited"
proof -
  have down: "client_down (js ''/shelter'')
     \<lparr>name = name (fieldValues form_edited), email = email (fieldValues form_edited),
      phone = replace_non_digits (phone (fieldValues form_edited)),
      whatsApp = replace_non_digits (whatsApp (fieldValues form_edited))\<rparr> = Inl 503"
    by (simp add: client_down_def)
  from down save_failure_keeps_form
              [where httpClient = client_down and fs = form_edited and toastId = 7
                 and is_email = "\<lambda>e. True"]
  show ?thesis
    by (simp add: handleSubmit_valid [OF form_edited_valid])
qed

text \<open>
  Claim C6, as stated, fails after a save. The edited form \<open>form_edited\<close> is saved
  with success by a press of the button. Nothing is edited afterwards, so the form has
  no unsaved change relative to the record just saved; but a save does not reset the
  form, which is as dirty as before: the button is rendered with the default variant,
  not the disabled one, and a second press sends the same request again.
\<close>

theorem saved_form_stays_enabled:
  "filter is_request (snd (press_save (\<lambda>e. True) client_ok 7 styles_id False form_edited)) =
     [HttpPut (js ''/shelter'')
        \<lparr>name = js ''Lar'', email = js ''a@b.co'', phone = js ''1199999999'',
         whatsApp = js ''11999999999''\<rparr>]
   \<and> filter is_success (snd (press_save (\<lambda>e. True) client_ok 7 styles_id False form_edited)) =
     [ToastSuccess msg_saved 7 True]
   \<and> fieldValues (fst (press_save (\<lambda>e. True) client_ok 7 styles_id False form_edited)) =
     fieldValues form_edited
   \<and> map (prop_of ''variant'')
       (by_tag ''Button''
          (Shelter styles_id False
             (fst (press_save (\<lambda>e. True) client_ok 7 styles_id False form_edited))
           :: unit element)) =
     [Some (Variant Default)]
   \<and> map (prop_of ''variant'')
       (by_tag ''Button''
          (Shelter styles_id False
             (fst (press_save (\<lambda>e. True) client_ok 7 styles_id False form_edited))
           :: unit element)) \<noteq>
     [Some (Variant Disabled)]
   \<and> filter is_request
       (snd (press_save (\<lambda>e. True) client_ok 7 styles_id False
               (fst (press_save (\<lambda>e. True) client_ok 7 styles_id False form_edited)))) =
     [HttpPut (js ''/shelter'')
        \<lparr>name = js ''Lar'', email = js ''a@b.co'', phone = js ''1199999999'',
         whatsApp = js ''11999999999''\<rparr>]"
  by (simp add: press_save_form_edited by_tag_Button form_edited_facts)

text \<open>
  Claim C6, amended. While the form is shown (the record is not loading) and the
  values of its fields are the default values of the form, which are the values last
  loaded into it by \<open>reset\<close>, the form is not dirty: the one button of the form is
  rendered with the disabled variant, and pressing it leaves the form as it is and
  causes no effect at all, so no submission takes place. The effect that loads a
  record puts the form in this state, with the record as values and as default
  values. What a save leaves behind is not part of the statement.
\<close>

theorem submit_disabled_when_unchanged_since_load:
  "(\<not> isLoading \<and> fieldValues fs = defaultValues fs \<longrightarrow>
      \<not> isDirty fs
    \<and> map (prop_of ''variant'') (by_tag ''Button'' (Shelter styles isLoading fs :: 'a element)) =
        [Some (Variant Disabled)]
    \<and> press_save is_email httpClient toastId styles isLoading fs = (fs, []))
   \<and> fieldValues (useEffect_reset False (Some r) fs) =
       \<lparr>name = shelterName r, email = shelterEmail r, phone = shelterPhone r,
        whatsApp = shelterWhatsApp r\<rparr>
   \<and> defaultValues (useEffect_reset False (Some r) fs) =
       fieldValues (useEffect_reset False (Some r) fs)"
proof (intro conjI impI)
  assume a: "\<not> isLoading \<and> fieldValues fs = defaultValues fs"
  then show clean: "\<not> isDirty fs"
    by (simp add: isDirty_def)
  from a clean
  show "map (prop_of ''variant'') (by_tag ''Button'' (Shelter styles isLoading fs :: 'a element)) =
        [Some (Variant Disabled)]"
    by (simp add: by_tag_Button)
  from a clean
  show "press_save is_email httpClient toastId styles isLoading fs = (fs, [])"
    by (simp add: press_save_Disabled)
next
  show "fieldValues (useEffect_reset False (Some r) fs) =
       \<lparr>name = shelterName r, email = shelterEmail r, phone = shelterPhone r,
        whatsApp = shelterWhatsApp r\<rparr>"
    by (simp add: useEffect_reset_def reset_def)
  show "defaultValues (useEffect_reset False (Some r) fs) =
       fieldValues (useEffect_reset False (Some r) fs)"
    by (simp add: useEffect_reset_def reset_def)
qed

theorem submit_disabled_when_unchanged_since_load_witness:
  "fieldValues (useEffect_reset False (Some record_1) form_edited) =
     defaultValues (useEffect_reset False (Some record_1) form_edited)
   \<and> \<not> isDirty (useEffect_reset False (Some record_1) form_edited)
   \<and> map (prop_of ''variant'')
       (by_tag ''Button''
          (Shelter styles_id False (useEffect_reset False (Some record_1) form_edited)
           :: unit element)) =
       [Some (Variant Disabled)]
   \<and> press_save (\<lambda>e. True) client_ok 7 styles_id False
       (useEffect_reset False (Some record_1) form_edited) =
       (useEffect_reset False (Some record_1) form_edited, [])"
proof -
  have clean: "fieldValues (useEffect_reset False (Some record_1) form_edited) =
     defaultValues (useEffect_reset False (Some record_1) form_edited)"
    by (simp add: useEffect_reset_def reset_def)
  from clean submit_disabled_when_unchanged_since_load
               [where 'a = unit and isLoading = False
                  and fs = "useEffect_reset False (Some record_1) form_edited"
                  and styles = styles_id and is_email = "\<lambda>e. True"
                  and httpClient = client_ok and toastId = 7]
  show ?thesis by simp
qed

text \<open>
  Claim C7. When the name is shorter than 2 or longer than 30, validation stops the
  submission: nothing is sent and no other effect happens, whether the handler runs
  directly or by a press of the button; the form state then holds the message of the
  failed length check for the name, and the rendered form shows it in a paragraph.
  When the length of the name is from 2 to 30, the name checks raise no issue and the
  form state holds no error for the name.
\<close>

theorem name_length_rule:
  "(length (name (fieldValues fs)) < 2 \<or> 30 < length (name (fieldValues fs)) \<longrightarrow>
      snd (handleSubmit (zodResolver (shelterSchema is_email)) (submit httpClient toastId) fs) = []
    \<and> snd (press_save is_email httpClient toastId styles False fs) = []
    \<and> errors (fst (handleSubmit (zodResolver (shelterSchema is_email))
                      (submit httpClient toastId) fs)) Name =
        Some (if length (name (fieldValues fs)) < 2 then msg_name_min else msg_name_max)
    \<and> formError styles
         (if length (name (fieldValues fs)) < 2 then msg_name_min else msg_name_max)
        \<in> set (descendants
                 (Shelter styles False
                    (fst (handleSubmit (zodResolver (shelterSchema is_email))
                            (submit httpClient toastId) fs)) :: 'a element)))
   \<and> (2 \<le> length (name (fieldValues fs)) \<and> length (name (fieldValues fs)) \<le> 30 \<longrightarrow>
        name_issues (name (fieldValues fs)) = []
      \<and> errors (fst (handleSubmit (zodResolver (shelterSchema is_email))
                        (submit httpClient toastId) fs)) Name = None)"
proof (intro conjI impI)
  assume bad: "length (name (fieldValues fs)) < 2 \<or> 30 < length (name (fieldValues fs))"
  then have v: "violates is_email (fieldValues fs) Name"
    by simp
  then have inv: "shelterSchema is_email (fieldValues fs) \<noteq> []"
    by (rule violates_not_Nil)
  show "snd (handleSubmit (zodResolver (shelterSchema is_email)) (submit httpClient toastId) fs) = []"
    by (simp add: handleSubmit_invalid [OF inv])
  show "snd (press_save is_email httpClient toastId styles False fs) = []"
    using v by (rule press_save_invalid)
  show e: "errors (fst (handleSubmit (zodResolver (shelterSchema is_email))
                      (submit httpClient toastId) fs)) Name =
        Some (if length (name (fieldValues fs)) < 2 then msg_name_min else msg_name_max)"
    using bad by (auto simp: handleSubmit_invalid [OF inv] map_of_shelterSchema)
  show "formError styles
         (if length (name (fieldValues fs)) < 2 then msg_name_min else msg_name_max)
        \<in> set (descendants
                 (Shelter styles False
                    (fst (handleSubmit (zodResolver (shelterSchema is_email))
                            (submit httpClient toastId) fs))))"
    using e by (rule formError_shown)
next
  assume ok: "2 \<le> length (name (fieldValues fs)) \<and> length (name (fieldValues fs)) \<le> 30"
  then show "name_issues (name (fieldValues fs)) = []"
    by (simp add: name_issues_def)
  show "errors (fst (handleSubmit (zodResolver (shelterSchema is_email))
                        (submit httpClient toastId) fs)) Name = None"
  proof (cases "shelterSchema is_email (fieldValues fs) = []")
    case True
    then show ?thesis by (simp add: handleSubmit_valid)
  next
    case False
    with ok show ?thesis
      by (simp add: handleSubmit_invalid map_of_shelterSchema)
  qed
qed

theorem name_length_rule_witness:
  "length (name (fieldValues form_short_name)) < 2
   \<and> snd (press_save (\<lambda>e. True) client_ok 7 styles_id False form_short_name) = []
   \<and> errors (fst (handleSubmit (zodResolver (shelterSchema (\<lambda>e. True))) (submit client_ok 7)
                    form_short_name)) Name = Some msg_name_min
   \<and> 2 \<le> length (name (fieldValues form_edited))
   \<and> length (name (fieldValues form_edited)) \<le> 30
   \<and> errors (fst (handleSubmit (zodResolver (shelterSchema (\<lambda>e. True))) (submit client_ok 7)
                    form_edited)) Name = None"
  using name_length_rule [where 'a = unit, of form_short_name "\<lambda>e. True" client_ok 7 styles_id]
    name_length_rule [where 'a = unit, of form_edited "\<lambda>e. True" client_ok 7 styles_id]
  by (simp add: form_short_name_facts form_edited_facts)

text \<open>
  Claim C8. When the values of the form violate the rule of some field, a submission
  has no effect outside the form: no request is issued, however often the button is
  pressed. The values stay as entered, the form state holds an error for exactly the
  fields whose rule is violated, and the message of the violating field is shown in a
  paragraph of the rendered form.
\<close>

theorem validation_error_blocks_request:
  assumes "violates is_email (fieldValues fs) f"
  shows "snd (handleSubmit (zodResolver (shelterSchema is_email)) (submit httpClient toastId) fs) = []
       \<and> snd (press_save_times n is_email httpClient toastId styles fs) = []
       \<and> fieldValues (fst (handleSubmit (zodResolver (shelterSchema is_email))
                             (submit httpClient toastId) fs)) = fieldValues fs
       \<and> (\<forall>g. (errors (fst (handleSubmit (zodResolver (shelterSchema is_email))
                               (submit httpClient toastId) fs)) g \<noteq> None) =
               violates is_email (fieldValues fs) g)
       \<and> (\<exists>m. errors (fst (handleSubmit (zodResolver (shelterSchema is_email))
                              (submit httpClient toastId) fs)) f = Some m
              \<and> formError styles m
                  \<in> set (descendants
                           (Shelter styles False
                              (fst (handleSubmit (zodResolver (shelterSchema is_email))
                                      (submit httpClient toastId) fs)) :: 'a element)))"
proof -
  have inv: "shelterSchema is_email (fieldValues fs) \<noteq> []"
    using assms by (rule violates_not_Nil)
  let ?fs' = "fst (handleSubmit (zodResolver (shelterSchema is_email)) (submit httpClient toastId) fs)"
  have e: "errors ?fs' = map_of (shelterSchema is_email (fieldValues fs))"
    by (simp add: handleSubmit_invalid [OF inv])
  from assms obtain m where m: "errors ?fs' f = Some m"
    by (auto simp: e violates_issue)
  then have "formError styles m \<in> set (descendants (Shelter styles False ?fs'))"
    by (rule formError_shown)
  with m have shown: "\<exists>m. errors ?fs' f = Some m
      \<and> formError styles m \<in> set (descendants (Shelter styles False ?fs'))"
    by blast
  have "snd (handleSubmit (zodResolver (shelterSchema is_email)) (submit httpClient toastId) fs) = []"
    by (simp add: handleSubmit_invalid [OF inv])
  moreover have "snd (press_save_times n is_email httpClient toastId styles fs) = []"
    using assms by (rule press_save_times_invalid)
  moreover have "fieldValues ?fs' = fieldValues fs"
    by (simp add: handleSubmit_invalid [OF inv])
  moreover have "\<forall>g. (errors ?fs' g \<noteq> None) = violates is_email (fieldValues fs) g"
    by (simp add: e violates_issue)
  ultimately show ?thesis
    using shown by blast
qed

theorem validation_error_blocks_request_witness:
  "violates (\<lambda>e. True) (fieldValues form_short_name) Name
   \<and> snd (press_save_times 3 (\<lambda>e. True) client_ok 7 styles_id form_short_name) = []
   \<and> errors (fst (handleSubmit (zodResolver (shelterSchema (\<lambda>e. True))) (submit client_ok 7)
                    form_short_name)) Name \<noteq> None"
proof -
  have v: "violates (\<lambda>e. True) (fieldValues form_short_name) Name"
    by (simp add: form_short_name_facts)
  from v validation_error_blocks_request
           [where 'a = unit and is_email = "\<lambda>e. True" and fs = form_short_name and f = Name
              and httpClient = client_ok and toastId = 7 and n = 3 and styles = styles_id]
  show ?thesis by auto
qed

text \<open>
  Claim C9, as stated, fails for two of the caller's attributes. A caller's class name
  does not reach the select element, which gets the class of the style sheet instead;
  and what a caller passes as children is replaced by the rendered options.
\<close>

theorem select_replaces_className_and_children:
  "map (prop_of ''className'')
     (by_tag ''select''
        (FowardedSelect styles_id (js ''Animal'') options_2
           [''className'' \<mapsto> Str (js ''wide'')] ())) \<noteq>
     [[''className'' \<mapsto> Str (js ''wide'')] ''className'']
   \<and> map (prop_of ''className'')
       (by_tag ''select''
          (FowardedSelect styles_id (js ''Animal'') options_2
             [''className'' \<mapsto> Str (js ''wide'')] ())) =
     [Some (Str (js ''selectBase''))]
   \<and> map (prop_of ''children'')
       (by_tag ''select''
          (FowardedSelect styles_id (js ''Animal'') options_2
             [''children'' \<mapsto> Str (js ''x'')] ())) \<noteq>
     [[''children'' \<mapsto> Str (js ''x'')] ''children'']
   \<and> map children_of
       (by_tag ''select''
          (FowardedSelect styles_id (js ''Animal'') options_2
             [''children'' \<mapsto> Str (js ''x'')] ())) =
     [by_tag ''option''
        (FowardedSelect styles_id (js ''Animal'') options_2
           [''children'' \<mapsto> Str (js ''x'')] ())]"
  by (simp add: FowardedSelect_by_tag styles_id_def js_def)

text \<open>
  Claim C9, amended. The select primitive renders one option element for each entry of
  the list, in the order of the list; the value of each option is the value of its
  entry and its only child is the text of its entry. The options are the children of
  the one select element, and the label element holds the label as given. Of the
  caller's remaining attributes, every one other than the class name, the ref and the
  children reaches the select element unchanged; the component sets the class name to
  the class of its style sheet and the ref to the forwarded ref, and the options take
  the place of the children.
\<close>

theorem select_renders_options:
  "map (prop_of ''value'') (by_tag ''option'' (FowardedSelect styles label options rest ref)) =
     map (\<lambda>option. Some (Str (option_value option))) options
   \<and> map children_of (by_tag ''option'' (FowardedSelect styles label options rest ref)) =
     map (\<lambda>option. [Text (option_text option)]) options
   \<and> length (by_tag ''option'' (FowardedSelect styles label options rest ref)) = length options
   \<and> map children_of (by_tag ''select'' (FowardedSelect styles label options rest ref)) =
     [by_tag ''option'' (FowardedSelect styles label options rest ref)]
   \<and> map children_of (by_tag ''label'' (FowardedSelect styles label options rest ref)) =
     [[Text label]]
   \<and> (\<forall>k. k \<noteq> ''className'' \<longrightarrow> k \<noteq> ''ref'' \<longrightarrow> k \<noteq> ''children'' \<longrightarrow>
          map (prop_of k) (by_tag ''select'' (FowardedSelect styles label options rest ref)) =
          [rest k])
   \<and> map (prop_of ''className'')
       (by_tag ''select'' (FowardedSelect styles label options rest ref)) =
     [Some (Str (styles ''selectBase''))]
   \<and> map (prop_of ''ref'') (by_tag ''select'' (FowardedSelect styles label options rest ref)) =
     [Some (Other ref)]
   \<and> map (prop_of ''children'')
       (by_tag ''select'' (FowardedSelect styles label options rest ref)) =
     [None]"
  by (simp add: FowardedSelect_by_tag comp_def)

theorem select_renders_options_witness:
  "map (prop_of ''value'')
     (by_tag ''option'' (FowardedSelect styles_id (js ''Animal'') options_2 Map.empty ())) =
     [Some (Str (js ''dog'')), Some (Str (js ''cat''))]
   \<and> map children_of
       (by_tag ''option'' (FowardedSelect styles_id (js ''Animal'') options_2 Map.empty ())) =
     [[Text (js ''Cachorro'')], [Text (js ''Gato'')]]
   \<and> ''name'' \<noteq> ''className'' \<and> ''name'' \<noteq> ''ref'' \<and> ''name'' \<noteq> ''children''
   \<and> map (prop_of ''name'')
       (by_tag ''select''
          (FowardedSelect styles_id (js ''Animal'') options_2 [''name'' \<mapsto> Str (js ''kind'')] ())) =
     [Some (Str (js ''kind''))]"
  using select_renders_options [of styles_id "js ''Animal''" options_2 Map.empty "()"]
    select_renders_options [of styles_id "js ''Animal''" options_2 "[''name'' \<mapsto> Str (js ''kind'')]" "()"]
  by (simp add: options_2_def)

text \<open>
  Claim C10. When loading has finished and a record is present, the effect sets the
  form values to the record, field by field: shelterName to name, shelterEmail to
  email, shelterPhone to phone, shelterWhatsApp to whatsApp. While loading, or with no
  record, the effect leaves the form as it is, so the fields keep the values they had.
\<close>

theorem form_populated_from_record:
  "(\<not> isLoading \<and> d = Some r \<longrightarrow>
      fieldValues (useEffect_reset isLoading d fs) =
        \<lparr>name = shelterName r, email = shelterEmail r, phone = shelterPhone r,
         whatsApp = shelterWhatsApp r\<rparr>)
   \<and> (isLoading \<or> d = None \<longrightarrow> useEffect_reset isLoading d fs = fs)"
  by (auto simp: useEffect_reset_def reset_def)

theorem form_populated_from_record_witness:
  "fieldValues (useEffect_reset False (Some record_1) form_0) =
     \<lparr>name = js ''Lar'', email = js ''a@b.co'', phone = js ''11 9999-9999'',
      whatsApp = js ''11 99999-9999''\<rparr>
   \<and> useEffect_reset False None form_0 = form_0
   \<and> useEffect_reset True (Some record_1) form_0 = form_0"
  using form_populated_from_record [of False "Some record_1" record_1 form_0]
    form_populated_from_record [of False None record_1 form_0]
    form_populated_from_record [of True "Some record_1" record_1 form_0]
  by (simp add: record_1_def)

end
